theory Spec2Isabelle
  imports Main "HOL-Library.Sublist" "HOL-Library.Multiset"
begin

section \<open>JavaScript values\<close>

text \<open>
  The values a question property or a recorded answer can hold.  Reading a property an
  object does not have yields \<open>undefined\<close>, so an absent property and \<open>JUndefined\<close> are the
  same observation.  The strict equality \<open>===\<close> of two such values is equality of type and
  value, which is HOL equality on this datatype.
\<close>

datatype jsval = JUndefined | JNum int | JStr string | JArr "string list"

text \<open>
  The numbers a percentage can be, and \<open>Math.round((c / n) * 100)\<close> on counts \<open>c\<close> and
  \<open>n\<close>.  For \<open>n = 0\<close> the quotient is \<open>NaN\<close> (\<open>0 / 0\<close>) or \<open>Infinity\<close> (\<open>c / 0\<close> with
  \<open>c > 0\<close>), which the product and \<open>Math.round\<close> leave as they are.  For \<open>n > 0\<close> the
  quotient, the product and the rounding are computed in double precision, which is not
  modelled here: \<open>fp c n\<close> stands for the integer they give.
\<close>

datatype jsnum = Num int | NaN | Infinity

definition math_round_pct :: "(nat \<Rightarrow> nat \<Rightarrow> int) \<Rightarrow> nat \<Rightarrow> nat \<Rightarrow> jsnum" where
  "math_round_pct fp c n = (if n = 0 then (if c = 0 then NaN else Infinity) else Num (fp c n))"

text \<open>\<open>calculatePercentage(correct, total)\<close> of the API utilities.\<close>

definition calculatePercentage :: "(nat \<Rightarrow> nat \<Rightarrow> int) \<Rightarrow> nat \<Rightarrow> nat \<Rightarrow> jsnum" where
  "calculatePercentage fp correct total' =
     (if total' = 0 then Num 0 else math_round_pct fp correct total')"

text \<open>\<open>x >= k\<close> for a number \<open>x\<close> and an integer \<open>k\<close>: every comparison with \<open>NaN\<close> is false.\<close>

fun js_ge :: "jsnum \<Rightarrow> int \<Rightarrow> bool" where
  "js_ge (Num p) k = (k \<le> p)"
| "js_ge NaN k = False"
| "js_ge Infinity k = True"

section \<open>Data model\<close>

text \<open>
  A question object as the session holds it: the properties of an entry of
  \<open>questions.json\<close> and of a formatted provider question.  The \<open>id\<close> is a number on
  every path (\<open>index + 1\<close>, \<open>questionData.length + 1\<close>, or the data set's own numeric id; a
  missing id is falsy like \<open>0\<close> in \<open>question.id || index + 1\<close> and is written \<open>0\<close>).
\<close>

record question =
  qid :: int
  category :: jsval
  difficulty :: jsval
  prompt :: jsval
  options :: jsval
  correctAnswer :: jsval
  explanation :: jsval

text \<open>One entry of \<open>results\<close> and the object \<open>finishQuiz\<close> returns.\<close>

record outcome =
  o_question :: question
  userAnswer :: jsval
  isCorrect :: bool
  o_correctAnswer :: jsval

record quiz_result =
  score :: nat
  total :: nat
  percentage :: jsnum
  results :: "outcome list"
  timeTaken :: int

section \<open>Statistics (useQuizStats)\<close>

record stats =
  totalQuizzes :: nat
  totalQuestions :: nat
  totalCorrect :: nat
  averageScore :: jsnum
  bestStreak :: nat
  currentStreak :: nat
  favoriteCategory :: "string option"
  timeSpent :: int
  lastPlayed :: "string option"

definition initial_stats :: stats where
  "initial_stats = \<lparr> totalQuizzes = 0, totalQuestions = 0, totalCorrect = 0,
     averageScore = Num 0, bestStreak = 0, currentStreak = 0, favoriteCategory = None,
     timeSpent = 0, lastPlayed = None \<rparr>"

text \<open>
  \<open>updateStats(quizResult)\<close>; \<open>stamp\<close> is \<open>new Date().toISOString()\<close> at the call.
  \<open>quizResult.timeTaken || 0\<close> is \<open>timeTaken\<close> itself for a number.
\<close>

definition updateStats ::
  "(nat \<Rightarrow> nat \<Rightarrow> int) \<Rightarrow> string \<Rightarrow> quiz_result \<Rightarrow> stats \<Rightarrow> stats" where
  "updateStats fp stamp quizResult prevStats =
     (let newTotalQuizzes = totalQuizzes prevStats + 1;
          newTotalQuestions = totalQuestions prevStats + total quizResult;
          newTotalCorrect = totalCorrect prevStats + score quizResult;
          newAverageScore = math_round_pct fp newTotalCorrect newTotalQuestions;
          newCurrentStreak =
            (if js_ge (percentage quizResult) 70 then currentStreak prevStats + 1 else 0);
          newBestStreak = max (bestStreak prevStats) newCurrentStreak;
          newTimeSpent = timeSpent prevStats + timeTaken quizResult
      in prevStats \<lparr> totalQuizzes := newTotalQuizzes,
           totalQuestions := newTotalQuestions,
           totalCorrect := newTotalCorrect,
           averageScore := newAverageScore,
           currentStreak := newCurrentStreak,
           bestStreak := newBestStreak,
           timeSpent := newTimeSpent,
           lastPlayed := Some stamp \<rparr>)"

text \<open>A result of the given score, total and percentage, for the examples.\<close>

definition result_with :: "nat \<Rightarrow> nat \<Rightarrow> jsnum \<Rightarrow> quiz_result" where
  "result_with c t p = \<lparr> score = c, total = t, percentage = p, results = [], timeTaken = 0 \<rparr>"

section \<open>High scores (useHighScores, saveScore)\<close>

text \<open>
  A stored score: the \<open>scoreData\<close> the quiz page builds, with the \<open>id\<close> and
  \<open>timestamp\<close> that \<open>addScore\<close> adds (\<open>saveScore\<close> stores \<open>scoreData\<close> as it is, without
  them).  The percentage of a stored score is a finite number.
\<close>

record score_entry =
  se_score :: nat
  se_total :: nat
  se_percentage :: int
  se_difficulty :: string
  se_timeTaken :: int
  se_category :: string
  se_id :: "int option"
  se_timestamp :: "string option"

text \<open>
  \<open>.sort((a, b) => b.percentage - a.percentage).slice(0, 10)\<close>: \<open>Array.prototype.sort\<close>
  is a stable sort, here by descending percentage, which is the stable sort by the key
  \<open>- percentage\<close>.
\<close>

definition top10 :: "score_entry list \<Rightarrow> score_entry list" where
  "top10 scores = take 10 (sort_key (\<lambda>e. - se_percentage e) scores)"








section \<open>The quiz session (useQuiz)\<close>

text \<open>
  The state of the hook.  \<open>selectedAnswers\<close> maps a question id to the option index
  chosen for it; a date is its time in milliseconds, \<open>null\<close> is \<open>None\<close>.
\<close>

record quiz_state =
  questions :: "question list"
  currentQuestionIndex :: nat
  selectedAnswers :: "int \<rightharpoonup> int"
  isLoading :: bool
  error :: "string option"
  quizCompleted :: bool
  st_score :: nat
  timeRemaining :: int
  timerActive :: bool
  startTime :: "int option"
  endTime :: "int option"

text \<open>The options of the hook; \<open>null\<close> is \<open>None\<close>.\<close>

record quiz_options =
  useAPI :: bool
  amount :: nat
  opt_category :: "nat option"
  opt_difficulty :: "string option"
  timeLimit :: int

definition initial_state :: "quiz_options \<Rightarrow> quiz_state" where
  "initial_state opts = \<lparr> questions = [], currentQuestionIndex = 0, selectedAnswers = Map.empty,
     isLoading = False, error = None, quizCompleted = False, st_score = 0,
     timeRemaining = timeLimit opts, timerActive = False, startTime = None, endTime = None \<rparr>"

subsection \<open>Shuffling\<close>

text \<open>
  \<open>shuffleQuestions\<close> and \<open>shuffleArray\<close> are the same Fisher-Yates loop.
  \<open>Math.floor(Math.random() * (i + 1))\<close> is an integer from \<open>0\<close> to \<open>i\<close>; the random
  numbers are an explicit stream \<open>rnd\<close> of draws, the draw numbered \<open>k\<close> reduced modulo
  \<open>i + 1\<close>, so that every index from \<open>0\<close> to \<open>i\<close> can occur.  The loop returns the array
  and the number of the next draw.
\<close>

fun fisher_yates :: "(nat \<Rightarrow> nat) \<Rightarrow> nat \<Rightarrow> nat \<Rightarrow> 'a list \<Rightarrow> 'a list \<times> nat" where
  "fisher_yates rnd k 0 shuffled = (shuffled, k)"
| "fisher_yates rnd k (Suc i') shuffled =
     (let i = Suc i'; j = rnd k mod (i + 1)
      in fisher_yates rnd (Suc k) i' (shuffled[i := shuffled ! j, j := shuffled ! i]))"

definition shuffleArray :: "(nat \<Rightarrow> nat) \<Rightarrow> nat \<Rightarrow> 'a list \<Rightarrow> 'a list \<times> nat" where
  "shuffleArray rnd k array = fisher_yates rnd k (length array - 1) array"

subsection \<open>Loading the local questions\<close>

text \<open>
  The filter and the id assignment of the local branch.  \<open>difficulty\<close> is the option, a
  string or \<open>null\<close>; \<open>difficulty && ...\<close> is false for \<open>null\<close> and for the empty string.
\<close>

definition keeps :: "string option \<Rightarrow> question \<Rightarrow> bool" where
  "keeps d q = (case d of None \<Rightarrow> True | Some s \<Rightarrow> s = [] \<or> difficulty q = JStr s)"

definition assign_id :: "nat \<times> question \<Rightarrow> question" where
  "assign_id = (\<lambda>(index, q). q \<lparr> qid := (if qid q \<noteq> 0 then qid q else int index + 1) \<rparr>)"

definition filteredQuestions :: "string option \<Rightarrow> question list \<Rightarrow> question list" where
  "filteredQuestions d dataset = map assign_id (enumerate 0 (filter (keeps d) dataset))"

text \<open>
  \<open>questionsPool.pop()\<close> yields \<open>undefined\<close> on an empty array, and
  \<open>{...question, id: n}\<close> of \<open>undefined\<close> is an object with an id only.
\<close>

definition pop :: "'a list \<Rightarrow> 'a option \<times> 'a list" where
  "pop xs = (if xs = [] then (None, []) else (Some (last xs), butlast xs))"

definition with_id :: "question option \<Rightarrow> int \<Rightarrow> question" where
  "with_id popped n =
     (case popped of
        None \<Rightarrow> \<lparr> qid = n, category = JUndefined, difficulty = JUndefined, prompt = JUndefined,
                  options = JUndefined, correctAnswer = JUndefined, explanation = JUndefined \<rparr>
      | Some q \<Rightarrow> q \<lparr> qid := n \<rparr>)"

text \<open>The pool after the refill test at the head of the loop body.\<close>

definition refill :: "(nat \<Rightarrow> nat) \<Rightarrow> nat \<Rightarrow> question list \<Rightarrow> question list \<Rightarrow> question list \<times> nat" where
  "refill rnd k filtered questionsPool =
     (if length questionsPool = 0 then shuffleArray rnd k filtered else (questionsPool, k))"

text \<open>The loop \<open>while (questionData.length < amount)\<close>.\<close>

function repeat_loop ::
  "(nat \<Rightarrow> nat) \<Rightarrow> nat \<Rightarrow> question list \<Rightarrow> nat \<Rightarrow> question list \<Rightarrow> question list
     \<Rightarrow> question list \<times> nat" where
  "repeat_loop rnd k filtered amt questionsPool questionData =
     (if length questionData < amt then
        repeat_loop rnd (snd (refill rnd k filtered questionsPool)) filtered amt
          (snd (pop (fst (refill rnd k filtered questionsPool))))
          (questionData @
             [with_id (fst (pop (fst (refill rnd k filtered questionsPool))))
                (int (length questionData) + 1)])
      else (questionData, k))"
  by pat_completeness auto
termination
  by (relation "measure (\<lambda>(rnd, k, filtered, amt, questionsPool, questionData).
        amt - length questionData)") auto

text \<open>The local branch of \<open>loadQuestions\<close>, up to the value of \<open>questionData\<close>.\<close>

definition local_questions ::
  "(nat \<Rightarrow> nat) \<Rightarrow> nat \<Rightarrow> string option \<Rightarrow> nat \<Rightarrow> question list \<Rightarrow> question list \<times> nat" where
  "local_questions rnd k d amt dataset =
     (let filtered = filteredQuestions d dataset;
          shuffledQuestions = fst (shuffleArray rnd k filtered);
          k1 = snd (shuffleArray rnd k filtered)
      in if length shuffledQuestions \<ge> amt then (take amt shuffledQuestions, k1)
         else if length shuffledQuestions > 0 then
           repeat_loop rnd k1 filtered amt shuffledQuestions []
         else ([], k1))"

text \<open>
  \<open>loadQuestions\<close>.  \<open>remote\<close> is the outcome of
  \<open>await fetchQuestionsWithRetry(amount, category, difficulty)\<close>: the message of the error
  thrown (\<open>Inl\<close>) or the questions; \<open>dataset\<close> is \<open>questionsData.questions\<close>.  The body of
  the \<open>try\<close> throws \<open>No questions found\<close> on an empty \<open>questionData\<close>; the \<open>catch\<close>
  records \<open>err.message || 'Failed to load questions'\<close> and, with \<open>useAPI\<close>, loads the
  fallback; shuffling and slicing a list cannot throw, so the inner \<open>catch\<close> has no case.
\<close>

definition loaded :: "quiz_options \<Rightarrow> question list \<Rightarrow> quiz_state \<Rightarrow> quiz_state" where
  "loaded opts questionData st =
     st \<lparr> questions := questionData, currentQuestionIndex := 0, selectedAnswers := Map.empty,
          quizCompleted := False, st_score := 0, timeRemaining := timeLimit opts,
          timerActive := False, startTime := None, endTime := None \<rparr>"

definition load_failed ::
  "(nat \<Rightarrow> nat) \<Rightarrow> nat \<Rightarrow> quiz_options \<Rightarrow> question list \<Rightarrow> string \<Rightarrow> quiz_state \<Rightarrow> quiz_state" where
  "load_failed rnd k opts dataset msg st =
     (let st1 = st \<lparr> error := Some (if msg = [] then ''Failed to load questions'' else msg) \<rparr>
      in if useAPI opts then
           (let shuffledQuestions = fst (shuffleArray rnd k dataset);
                fallbackQuestions = take (amount opts) shuffledQuestions
            in st1 \<lparr> questions := fallbackQuestions,
                     error := Some ''Using offline questions due to connection issues'' \<rparr>)
         else st1)"

definition loadQuestions ::
  "(nat \<Rightarrow> nat) \<Rightarrow> nat \<Rightarrow> quiz_options \<Rightarrow> string + question list \<Rightarrow> question list
     \<Rightarrow> quiz_state \<Rightarrow> quiz_state" where
  "loadQuestions rnd k opts remote dataset st =
     (let st0 = st \<lparr> isLoading := True, error := None \<rparr>;
          questionData =
            (if useAPI opts then remote
             else Inr (fst (local_questions rnd k (opt_difficulty opts) (amount opts) dataset)));
          st1 =
            (case questionData of
               Inl msg \<Rightarrow> load_failed rnd k opts dataset msg st0
             | Inr qs \<Rightarrow>
                 if length qs = 0 then load_failed rnd k opts dataset ''No questions found'' st0
                 else loaded opts qs st0)
      in st1 \<lparr> isLoading := False \<rparr>)"

subsection \<open>Running and finishing\<close>

text \<open>\<open>startQuiz\<close>; \<open>now\<close> is the time of \<open>new Date()\<close>.\<close>

definition startQuiz :: "int \<Rightarrow> quiz_state \<Rightarrow> quiz_state" where
  "startQuiz now st = st \<lparr> startTime := Some now, timerActive := True \<rparr>"

text \<open>
  \<open>selectAnswer(answerIndex)\<close>.  \<open>questions[currentQuestionIndex].id\<close> throws a
  \<open>TypeError\<close> when there is no current question: \<open>None\<close>.
\<close>

definition selectAnswer :: "int \<Rightarrow> quiz_state \<Rightarrow> quiz_state option" where
  "selectAnswer answerIndex st =
     (if quizCompleted st then Some st
      else if currentQuestionIndex st < length (questions st) then
        Some (st \<lparr> selectedAnswers :=
          (selectedAnswers st)(qid (questions st ! currentQuestionIndex st) \<mapsto> answerIndex) \<rparr>)
      else None)"

text \<open>
  One entry of \<open>results\<close>: \<open>selectedAnswers[question.id]\<close> is the index recorded or
  \<open>undefined\<close>, and \<open>isCorrect\<close> is its strict equality with \<open>question.correctAnswer\<close>.
\<close>

definition answer_of :: "(int \<rightharpoonup> int) \<Rightarrow> question \<Rightarrow> jsval" where
  "answer_of answers q = (case answers (qid q) of None \<Rightarrow> JUndefined | Some i \<Rightarrow> JNum i)"

definition outcome_of :: "(int \<rightharpoonup> int) \<Rightarrow> question \<Rightarrow> outcome" where
  "outcome_of answers q =
     \<lparr> o_question = q, userAnswer = answer_of answers q,
       isCorrect = (answer_of answers q = correctAnswer q),
       o_correctAnswer = correctAnswer q \<rparr>"

text \<open>
  \<open>finishQuiz\<close>: the new state and the object returned.  \<open>tEnd\<close> and \<open>tRet\<close> are the times
  of its two \<open>new Date()\<close>, the one stored as end time and the one \<open>timeTaken\<close> is measured
  to.  \<open>correctAnswers\<close> counts the entries with \<open>isCorrect\<close>.
\<close>

definition finishQuiz ::
  "(nat \<Rightarrow> nat \<Rightarrow> int) \<Rightarrow> int \<Rightarrow> int \<Rightarrow> quiz_state \<Rightarrow> quiz_state \<times> quiz_result" where
  "finishQuiz fp tEnd tRet st =
     (let rs = map (outcome_of (selectedAnswers st)) (questions st);
          correctAnswers = length (filter isCorrect rs)
      in (st \<lparr> timerActive := False, endTime := Some tEnd, st_score := correctAnswers,
               quizCompleted := True \<rparr>,
          \<lparr> score = correctAnswers, total = length (questions st),
            percentage = math_round_pct fp correctAnswers (length (questions st)),
            results = rs,
            timeTaken = (case startTime st of None \<Rightarrow> 0 | Some t0 \<Rightarrow> tRet - t0) \<rparr>))"

text \<open>The derived value \<open>quizResults\<close>.\<close>

definition quizResults :: "(nat \<Rightarrow> nat \<Rightarrow> int) \<Rightarrow> quiz_state \<Rightarrow> quiz_result option" where
  "quizResults fp st =
     (if quizCompleted st then
        Some \<lparr> score = st_score st, total = length (questions st),
               percentage = math_round_pct fp (st_score st) (length (questions st)),
               results = map (outcome_of (selectedAnswers st)) (questions st),
               timeTaken = (case (startTime st, endTime st) of
                              (Some t0, Some t1) \<Rightarrow> t1 - t0 | _ \<Rightarrow> 0) \<rparr>
      else None)"

text \<open>\<open>nextQuestion\<close>, which finishes the quiz when there is no later question.\<close>

definition nextQuestion ::
  "(nat \<Rightarrow> nat \<Rightarrow> int) \<Rightarrow> int \<Rightarrow> int \<Rightarrow> quiz_options \<Rightarrow> quiz_state \<Rightarrow> quiz_state" where
  "nextQuestion fp tEnd tRet opts st =
     (if int (currentQuestionIndex st) < int (length (questions st)) - 1 then
        st \<lparr> currentQuestionIndex := currentQuestionIndex st + 1, timeRemaining := timeLimit opts \<rparr>
      else fst (finishQuiz fp tEnd tRet st))"

subsection \<open>The quiz page\<close>

text \<open>
  The screen the quiz page renders from the hook's state, in the order of its tests:
  loading, then any non-empty \<open>error\<close>, then the start screen, the completed screen and
  the question screen.
\<close>

datatype screen = LoadingScreen | ErrorScreen string | StartScreen | CompletedScreen | QuestionScreen

definition quiz_page :: "(nat \<Rightarrow> nat \<Rightarrow> int) \<Rightarrow> bool \<Rightarrow> quiz_state \<Rightarrow> screen" where
  "quiz_page fp quizStarted st =
     (if isLoading st then LoadingScreen
      else case error st of
        Some (c # cs) \<Rightarrow> ErrorScreen (c # cs)
      | _ \<Rightarrow>
        if \<not> quizStarted \<and> length (questions st) > 0 then StartScreen
        else if quizCompleted st \<and> quizResults fp st \<noteq> None then CompletedScreen
        else QuestionScreen)"

section \<open>The question provider (API utilities)\<close>

subsection \<open>Strings\<close>

text \<open>\<open>s.includes(sub)\<close>, and the decimal digits a template literal prints for a number.\<close>

definition js_includes :: "string \<Rightarrow> string \<Rightarrow> bool" where
  "js_includes s sub = sublist sub s"

function show_nat :: "nat \<Rightarrow> string" where
  "show_nat n =
     (if n < 10 then [''0123456789'' ! n]
      else show_nat (n div 10) @ [''0123456789'' ! (n mod 10)])"
  by pat_completeness auto
termination
  by (relation "measure id") auto

definition show_int :: "int \<Rightarrow> string" where
  "show_int i = (if i < 0 then CHR ''-'' # show_nat (nat (- i)) else show_nat (nat i))"

subsection \<open>Fetching and formatting\<close>

text \<open>
  A question as the provider sends it, and what \<open>await rateLimitedFetch(url)\<close> followed by
  \<open>await response.json()\<close> can give: a rejected \<open>fetch\<close> (with the error's message), or a
  response with its status and a body that fails to parse (with the message) or holds
  \<open>response_code\<close> and \<open>results\<close>.  The request parameters only shape the URL.
\<close>

record api_question =
  api_category :: string
  api_difficulty :: string
  api_question :: string
  correct_answer :: string
  incorrect_answers :: "string list"

datatype body = BadJson string | Json int "api_question list"

datatype fetched = Rejected string | Response nat body

text \<open>\<open>response.ok\<close>: a status from 200 to 299.\<close>

definition ok :: "nat \<Rightarrow> bool" where
  "ok status = (200 \<le> status \<and> status \<le> 299)"

text \<open>The message thrown for a non-zero \<open>response_code\<close>.\<close>

definition response_error :: "int \<Rightarrow> string" where
  "response_error code =
     (if code = 1 then ''NO_RESULTS''
      else if code = 2 then ''INVALID_PARAMETER''
      else if code = 3 then ''TOKEN_NOT_FOUND''
      else if code = 4 then ''TOKEN_EMPTY''
      else if code = 5 then ''RATE_LIMIT''
      else ''API_ERROR_'' @ show_int code)"

text \<open>The \<open>catch\<close> block: the message of the error it throws for a caught message.\<close>

definition rate_limit_message :: string where
  "rate_limit_message =
     ''Rate limit exceeded. Please wait a few seconds and try again, or switch to offline mode.''"

definition rethrown :: "string \<Rightarrow> string" where
  "rethrown msg =
     (if msg = ''RATE_LIMIT_EXCEEDED'' \<or> msg = ''RATE_LIMIT'' then rate_limit_message
      else if msg = ''NO_RESULTS'' then
        ''No questions found for the selected criteria. Try different settings or use offline mode.''
      else if msg = ''INVALID_PARAMETER'' then
        ''Invalid quiz settings. Please check your configuration.''
      else if js_includes msg ''Failed to fetch'' \<or> js_includes msg ''NetworkError'' then
        ''Network error. Please check your internet connection or try offline mode.''
      else msg)"

text \<open>
  One formatted question; \<open>decode\<close> is \<open>decodeHTMLEntities\<close>, which asks the document.
  The options are shuffled with the draws from \<open>k\<close> on.
\<close>

definition format_question ::
  "(string \<Rightarrow> string) \<Rightarrow> (nat \<Rightarrow> nat) \<Rightarrow> nat \<Rightarrow> nat \<Rightarrow> api_question \<Rightarrow> question \<times> nat" where
  "format_question decode rnd k index q =
     (let shuffled = shuffleArray rnd k
            (map decode (incorrect_answers q) @ [decode (correct_answer q)])
      in (\<lparr> qid = int index + 1,
            category = JStr (api_category q),
            difficulty = JStr (api_difficulty q),
            prompt = JStr (decode (api_question q)),
            options = JArr (fst shuffled),
            correctAnswer = JStr (correct_answer q),
            explanation = JStr (''The correct answer is: '' @ decode (correct_answer q)) \<rparr>,
          snd shuffled))"

fun format_all ::
  "(string \<Rightarrow> string) \<Rightarrow> (nat \<Rightarrow> nat) \<Rightarrow> nat \<Rightarrow> nat \<Rightarrow> api_question list
     \<Rightarrow> question list \<times> nat" where
  "format_all decode rnd k index [] = ([], k)"
| "format_all decode rnd k index (q # qs) =
     (let fq = format_question decode rnd k index q;
          rest = format_all decode rnd (snd fq) (Suc index) qs
      in (fst fq # fst rest, snd rest))"

text \<open>
  \<open>fetchQuestionsFromAPI\<close>: the message of the error thrown (\<open>Inl\<close>), or the questions and
  the number of the next draw.
\<close>

definition fetchQuestionsFromAPI ::
  "(string \<Rightarrow> string) \<Rightarrow> (nat \<Rightarrow> nat) \<Rightarrow> nat \<Rightarrow> fetched \<Rightarrow> string + question list \<times> nat" where
  "fetchQuestionsFromAPI decode rnd k r =
     (case r of
        Rejected msg \<Rightarrow> Inl (rethrown msg)
      | Response status b \<Rightarrow>
          if \<not> ok status then
            (if status = 429 then Inl (rethrown ''RATE_LIMIT_EXCEEDED'')
             else Inl (rethrown (''HTTP error! status: '' @ show_nat status)))
          else
            (case b of
               BadJson msg \<Rightarrow> Inl (rethrown msg)
             | Json code rs \<Rightarrow>
                 if code \<noteq> 0 then Inl (rethrown (response_error code))
                 else
                   (let formattedQuestions = format_all decode rnd k 0 rs
                    in Inr (shuffleArray rnd (snd formattedQuestions) (fst formattedQuestions)))))"

subsection \<open>Retrying\<close>

text \<open>
  \<open>fetchQuestionsWithRetry\<close>.  \<open>env a\<close> is what the request of attempt \<open>a\<close> gives.  The
  result is the error thrown (\<open>Inl\<close>; \<open>None\<close> is \<open>undefined\<close>, the initial \<open>lastError\<close>) or
  the questions, with the log of the delays awaited and the requests made.
\<close>

datatype retry_event = Delay nat | Request nat

definition retryable :: "string \<Rightarrow> bool" where
  "retryable msg = (js_includes msg ''Rate limit'' \<or> js_includes msg ''429'')"

function retry_from ::
  "(string \<Rightarrow> string) \<Rightarrow> (nat \<Rightarrow> nat) \<Rightarrow> nat \<Rightarrow> (nat \<Rightarrow> fetched) \<Rightarrow> nat \<Rightarrow> nat \<Rightarrow> string option
     \<Rightarrow> retry_event list \<Rightarrow> (string option + question list) \<times> retry_event list" where
  "retry_from decode rnd k env maxRetries attempt lastError trace =
     (if attempt \<le> maxRetries then
        (let trace1 = trace @ (if attempt > 1 then [Delay (attempt * 3000)] else [])
                        @ [Request attempt]
         in case fetchQuestionsFromAPI decode rnd k (env attempt) of
              Inr res \<Rightarrow> (Inr (fst res), trace1)
            | Inl msg \<Rightarrow>
                if retryable msg then
                  retry_from decode rnd k env maxRetries (attempt + 1) (Some msg)
                    (trace1 @ (if attempt < maxRetries then [Delay 10000] else []))
                else (Inl (Some msg), trace1))
      else (Inl lastError, trace))"
  by pat_completeness auto
termination
  by (relation "measure (\<lambda>(decode, rnd, k, env, maxRetries, attempt, lastError, trace).
        Suc maxRetries - attempt)") auto

definition fetchQuestionsWithRetry ::
  "(string \<Rightarrow> string) \<Rightarrow> (nat \<Rightarrow> nat) \<Rightarrow> nat \<Rightarrow> (nat \<Rightarrow> fetched) \<Rightarrow> nat
     \<Rightarrow> (string option + question list) \<times> retry_event list" where
  "fetchQuestionsWithRetry decode rnd k env maxRetries =
     retry_from decode rnd k env maxRetries 1 None []"

text \<open>
  The responses the utilities treat as rate limiting: the status 429 and the response
  code 5, for which they throw \<open>RATE_LIMIT_EXCEEDED\<close> and \<open>RATE_LIMIT\<close>.
\<close>

definition rate_limited :: "fetched \<Rightarrow> bool" where
  "rate_limited r =
     (case r of
        Rejected msg \<Rightarrow> False
      | Response status b \<Rightarrow>
          if \<not> ok status then status = 429
          else (case b of BadJson msg \<Rightarrow> False | Json code rs \<Rightarrow> code = 5))"

text \<open>
  The trace of the retry loop: attempt \<open>a\<close> awaits \<open>a * 3000\<close> ms first (but for the first
  one) and makes its request; a failed attempt that is retried awaits 10000 ms more while
  attempts remain.  A run that stops at attempt \<open>n\<close> leaves the trace \<open>stop_trace\<close>.
\<close>

fun is_request :: "retry_event \<Rightarrow> bool" where
  "is_request (Request a) = True"
| "is_request (Delay ms) = False"

definition final_attempt :: "nat \<Rightarrow> retry_event list" where
  "final_attempt a = (if a > 1 then [Delay (a * 3000)] else []) @ [Request a]"

definition failed_attempt :: "nat \<Rightarrow> nat \<Rightarrow> retry_event list" where
  "failed_attempt maxRetries a = final_attempt a @ (if a < maxRetries then [Delay 10000] else [])"

definition stop_trace :: "nat \<Rightarrow> nat \<Rightarrow> retry_event list" where
  "stop_trace maxRetries n = concat (map (failed_attempt maxRetries) [1..<n]) @ final_attempt n"

subsection \<open>The rate limiter\<close>













subsection \<open>Auxiliary notions and examples\<close>

text \<open>A question that is an entry of the pool but for its id.\<close>

definition from_pool :: "question list \<Rightarrow> question \<Rightarrow> bool" where
  "from_pool filtered q = (\<exists>p \<in> set filtered. q = p \<lparr> qid := qid q \<rparr>)"

text \<open>Two questions with the same content: every property but the id.\<close>

definition same_content :: "question \<Rightarrow> question \<Rightarrow> bool" where
  "same_content q p = (category q = category p \<and> difficulty q = difficulty p
     \<and> prompt q = prompt p \<and> options q = options p
     \<and> correctAnswer q = correctAnswer p \<and> explanation q = explanation p)"

text \<open>A local data set of two questions and options for the local mode.\<close>

definition sample_question :: "int \<Rightarrow> string \<Rightarrow> int \<Rightarrow> question" where
  "sample_question n text c = \<lparr> qid = n, category = JStr ''General'', difficulty = JStr ''easy'',
     prompt = JStr text, options = JArr [''A'', ''B'', ''C'', ''D''], correctAnswer = JNum c,
     explanation = JStr ''because'' \<rparr>"

definition two_questions :: "question list" where
  "two_questions = [sample_question 1 ''first?'' 0, sample_question 2 ''second?'' 3]"

definition local_options :: "nat \<Rightarrow> quiz_options" where
  "local_options n = \<lparr> useAPI = False, amount = n, opt_category = None, opt_difficulty = None,
     timeLimit = 30 \<rparr>"

text \<open>Rounding half up of the exact quotient, an instance of the rounding for the examples.\<close>

definition exact_pct :: "nat \<Rightarrow> nat \<Rightarrow> int" where
  "exact_pct c n = (200 * int c + int n) div (2 * int n)"

text \<open>A provider question, the question formatted from it with the draws all 0, and an
  environment that limits the first two requests.\<close>

definition capital_question :: api_question where
  "capital_question = \<lparr> api_category = ''Geography'', api_difficulty = ''easy'',
     api_question = ''Capital of France?'', correct_answer = ''Paris'',
     incorrect_answers = [''London'', ''Rome'', ''Berlin''] \<rparr>"

definition capital_formatted :: question where
  "capital_formatted = \<lparr> qid = 1, category = JStr ''Geography'', difficulty = JStr ''easy'',
     prompt = JStr ''Capital of France?'',
     options = JArr [''Rome'', ''Berlin'', ''Paris'', ''London''],
     correctAnswer = JStr ''Paris'',
     explanation = JStr ''The correct answer is: Paris'' \<rparr>"

definition rate_limited_twice :: "nat \<Rightarrow> fetched" where
  "rate_limited_twice a =
     (if a < 3 then Response 429 (BadJson []) else Response 200 (Json 0 [capital_question]))"

text \<open>Options for the remote mode, and sessions loaded and started.\<close>

definition api_options :: "nat \<Rightarrow> quiz_options" where
  "api_options n = \<lparr> useAPI = True, amount = n, opt_category = None, opt_difficulty = None,
     timeLimit = 30 \<rparr>"

definition remote_session :: quiz_state where
  "remote_session = startQuiz 0 (loadQuestions (\<lambda>k. 0) 0 (api_options 1)
     (Inr [capital_formatted]) two_questions (initial_state (api_options 1)))"

definition started_session :: quiz_state where
  "started_session = startQuiz 1000 (loadQuestions (\<lambda>k. k) 0 (local_options 2) (Inl [])
     two_questions (initial_state (local_options 2)))"




section \<open>Theorems\<close>

text \<open>
  C9. Every update sets the current streak to the previous one plus 1 when the result's
  percentage is at least 70 and to 0 otherwise, and the best streak to the maximum of the
  previous best streak and the new current streak.  Three updates with percentages 80, 50
  and 90 from zeroed statistics end with current streak 1 and best streak 1.
\<close>

theorem updateStats_streak:
  "currentStreak (updateStats fp stamp r st) =
     (if js_ge (percentage r) 70 then currentStreak st + 1 else 0)
   \<and> bestStreak (updateStats fp stamp r st) =
       max (bestStreak st) (currentStreak (updateStats fp stamp r st))
   \<and> currentStreak (updateStats fp s3 (result_with 9 10 (Num 90))
        (updateStats fp s2 (result_with 5 10 (Num 50))
          (updateStats fp s1 (result_with 4 5 (Num 80)) initial_stats))) = 1
   \<and> bestStreak (updateStats fp s3 (result_with 9 10 (Num 90))
        (updateStats fp s2 (result_with 5 10 (Num 50))
          (updateStats fp s1 (result_with 4 5 (Num 80)) initial_stats))) = 1"
  by (simp add: updateStats_def Let_def result_with_def initial_stats_def)

subsection \<open>High scores\<close>



lemma top10_set: "set (top10 xs) \<subseteq> set xs"
  unfolding top10_def using set_take_subset[of 10 "sort_key (\<lambda>e. - se_percentage e) xs"] by simp














subsection \<open>Shuffling and the local questions\<close>

lemma fisher_yates_mset:
  "i < length xs \<Longrightarrow> mset (fst (fisher_yates rnd k i xs)) = mset xs"
proof (induction rnd k i xs rule: fisher_yates.induct)
  case (1 rnd k shuffled)
  then show ?case by simp
next
  case (2 rnd k i' shuffled)
  let ?j = "rnd k mod (Suc i' + 1)"
  let ?sw = "shuffled[Suc i' := shuffled ! ?j, ?j := shuffled ! Suc i']"
  have "?j < Suc i' + 1" by (rule mod_less_divisor) simp
  then have j: "?j < length shuffled" using "2.prems" by linarith
  have "mset ?sw = mset shuffled"
    using "2.prems" j by (rule mset_swap[of ?j shuffled "Suc i'", rotated])
  moreover have "mset (fst (fisher_yates rnd (Suc k) i' ?sw)) = mset ?sw"
    using "2.IH"[of "Suc i'" ?j] "2.prems" by simp
  ultimately show ?case by (simp add: Let_def)
qed

lemma shuffleArray_mset: "mset (fst (shuffleArray rnd k xs)) = mset xs"
proof (cases xs)
  case Nil
  then show ?thesis by (simp add: shuffleArray_def)
next
  case (Cons a list)
  then show ?thesis unfolding shuffleArray_def by (intro fisher_yates_mset) simp
qed

lemma shuffleArray_set: "set (fst (shuffleArray rnd k xs)) = set xs"
  by (metis shuffleArray_mset set_mset_mset)

lemma shuffleArray_length: "length (fst (shuffleArray rnd k xs)) = length xs"
  by (metis shuffleArray_mset size_mset)

lemma refill_pool:
  assumes "filtered \<noteq> []" "set pool \<subseteq> set filtered"
  shows "fst (refill rnd k filtered pool) \<noteq> [] \<and> set (fst (refill rnd k filtered pool)) \<subseteq> set filtered"
proof (cases "pool = []")
  case True
  have "length (fst (shuffleArray rnd k filtered)) = length filtered"
    by (rule shuffleArray_length)
  then have "fst (shuffleArray rnd k filtered) \<noteq> []" using assms(1) by auto
  then show ?thesis using True by (simp add: refill_def shuffleArray_set)
next
  case False
  then show ?thesis using assms(2) by (simp add: refill_def)
qed

lemma pop_nonempty:
  assumes "xs \<noteq> []"
  shows "fst (pop xs) = Some (last xs) \<and> snd (pop xs) = butlast xs"
  using assms by (simp add: pop_def)

lemma repeat_loop_inv:
  assumes "filtered \<noteq> []" "set pool \<subseteq> set filtered" "length qd \<le> amt"
    "map qid qd = map int [1..<Suc (length qd)]"
    "\<forall>q \<in> set qd. from_pool filtered q"
  shows "length (fst (repeat_loop rnd k filtered amt pool qd)) = amt
     \<and> map qid (fst (repeat_loop rnd k filtered amt pool qd)) = map int [1..<Suc amt]
     \<and> (\<forall>q \<in> set (fst (repeat_loop rnd k filtered amt pool qd)). from_pool filtered q)"
  using assms
proof (induction rnd k filtered amt pool qd rule: repeat_loop.induct)
  case (1 rnd k filtered amt pool qd)
  show ?case
  proof (cases "length qd < amt")
    case False
    then have "length qd = amt" using "1.prems"(3) by simp
    moreover have "repeat_loop rnd k filtered amt pool qd = (qd, k)"
      using False by (simp only: repeat_loop.simps[of rnd k filtered amt pool qd] if_False)
    ultimately show ?thesis using "1.prems"(4,5) by simp
  next
    case True
    let ?pool1 = "fst (refill rnd k filtered pool)"
    let ?k1 = "snd (refill rnd k filtered pool)"
    let ?q = "with_id (fst (pop ?pool1)) (int (length qd) + 1)"
    let ?qd' = "qd @ [?q]"
    have p1: "?pool1 \<noteq> []" "set ?pool1 \<subseteq> set filtered"
      using refill_pool[OF "1.prems"(1,2)] by auto
    have popped: "fst (pop ?pool1) = Some (last ?pool1)" "snd (pop ?pool1) = butlast ?pool1"
      using pop_nonempty[OF p1(1)] by auto
    have q: "?q = (last ?pool1) \<lparr> qid := int (length qd) + 1 \<rparr>"
      by (simp add: popped with_id_def)
    have "last ?pool1 \<in> set filtered" using p1 by (meson last_in_set subsetD)
    then have fq: "from_pool filtered ?q"
      unfolding from_pool_def q by (intro bexI[of _ "last ?pool1"]) simp_all
    have a2: "set (snd (pop ?pool1)) \<subseteq> set filtered"
      using p1(2) popped(2) by (metis in_set_butlastD subsetD subsetI)
    have a3: "length ?qd' \<le> amt" using True by simp
    have a4: "map qid ?qd' = map int [1..<Suc (length ?qd')]"
      using "1.prems"(4) by (simp add: q)
    have a5: "\<forall>x \<in> set ?qd'. from_pool filtered x"
      using "1.prems"(5) fq by simp
    have step: "repeat_loop rnd k filtered amt pool qd
        = repeat_loop rnd ?k1 filtered amt (snd (pop ?pool1)) ?qd'"
      using True by (simp only: repeat_loop.simps[of rnd k filtered amt pool qd] if_True)
    show ?thesis
      unfolding step by (rule "1.IH"[OF True "1.prems"(1) a2 a3 a4 a5])
  qed
qed

lemma filteredQuestions_content:
  assumes "p \<in> set (filteredQuestions d dataset)"
  shows "\<exists>r \<in> set (filter (keeps d) dataset). same_content p r"
proof -
  from assms obtain ir where ir: "ir \<in> set (enumerate 0 (filter (keeps d) dataset))" "p = assign_id ir"
    by (auto simp: filteredQuestions_def)
  obtain i r where [simp]: "ir = (i, r)" by (cases ir)
  have "snd ir \<in> set (map snd (enumerate 0 (filter (keeps d) dataset)))"
    using ir(1) by (simp only: set_map) (rule imageI)
  then have "r \<in> set (filter (keeps d) dataset)"
    by (simp only: map_snd_enumerate) simp
  moreover have "same_content p r"
    by (simp add: ir(2) assign_id_def same_content_def)
  ultimately show ?thesis by blast
qed

lemma filteredQuestions_length:
  "length (filteredQuestions d dataset) = length (filter (keeps d) dataset)"
  by (simp add: filteredQuestions_def)

lemma local_questions_short:
  assumes "0 < length (filter (keeps d) dataset)" "length (filter (keeps d) dataset) < amt"
  shows "length (fst (local_questions rnd k d amt dataset)) = amt
     \<and> map qid (fst (local_questions rnd k d amt dataset)) = map int [1..<Suc amt]
     \<and> (\<forall>q \<in> set (fst (local_questions rnd k d amt dataset)).
           from_pool (filteredQuestions d dataset) q)"
proof -
  let ?filtered = "filteredQuestions d dataset"
  let ?sh = "fst (shuffleArray rnd k ?filtered)"
  let ?k1 = "snd (shuffleArray rnd k ?filtered)"
  have len: "length ?sh = length (filter (keeps d) dataset)"
    by (simp add: shuffleArray_length filteredQuestions_length)
  have ne: "?filtered \<noteq> []" using assms(1) filteredQuestions_length[of d dataset] by auto
  have eq: "local_questions rnd k d amt dataset = repeat_loop rnd ?k1 ?filtered amt ?sh []"
    using assms len by (simp add: local_questions_def Let_def)
  have sub: "set ?sh \<subseteq> set ?filtered" by (simp add: shuffleArray_set)
  show ?thesis
    unfolding eq by (rule repeat_loop_inv[OF ne sub]) simp_all
qed

text \<open>
  C7. In local mode, with a non-empty filtered pool smaller than the requested amount,
  the session holds exactly the requested number of questions, their ids are 1, 2, ... in
  order (so all different), each has the content of a question of the filtered pool, and
  no error is set.
\<close>

theorem loadQuestions_local_repeats:
  assumes "\<not> useAPI opts"
    and "0 < length (filter (keeps (opt_difficulty opts)) dataset)"
    and "length (filter (keeps (opt_difficulty opts)) dataset) < amount opts"
  shows "length (questions (loadQuestions rnd k opts remote dataset st)) = amount opts
     \<and> map qid (questions (loadQuestions rnd k opts remote dataset st))
         = map int [1..<Suc (amount opts)]
     \<and> distinct (map qid (questions (loadQuestions rnd k opts remote dataset st)))
     \<and> (\<forall>q \<in> set (questions (loadQuestions rnd k opts remote dataset st)).
           \<exists>p \<in> set (filter (keeps (opt_difficulty opts)) dataset). same_content q p)
     \<and> error (loadQuestions rnd k opts remote dataset st) = None"
proof -
  let ?qs = "fst (local_questions rnd k (opt_difficulty opts) (amount opts) dataset)"
  note L = local_questions_short[OF assms(2,3), of rnd k]
  have len: "length ?qs = amount opts" using L by blast
  have ids: "map qid ?qs = map int [1..<Suc (amount opts)]" using L by blast
  have pool: "\<forall>q \<in> set ?qs. from_pool (filteredQuestions (opt_difficulty opts) dataset) q"
    using L by blast
  have pos: "length ?qs \<noteq> 0" using len assms(2,3) by simp
  have st: "loadQuestions rnd k opts remote dataset st
      = (loaded opts ?qs (st \<lparr> isLoading := True, error := None \<rparr>)) \<lparr> isLoading := False \<rparr>"
    using assms(1) pos by (simp add: loadQuestions_def Let_def)
  have q: "questions (loadQuestions rnd k opts remote dataset st) = ?qs"
    by (simp add: st loaded_def)
  have e: "error (loadQuestions rnd k opts remote dataset st) = None"
    by (simp add: st loaded_def)
  have dist: "distinct (map qid ?qs)"
    unfolding ids by (simp add: distinct_map inj_on_def)
  have content: "\<forall>q \<in> set ?qs.
      \<exists>p \<in> set (filter (keeps (opt_difficulty opts)) dataset). same_content q p"
  proof
    fix x assume "x \<in> set ?qs"
    with pool obtain p where p: "p \<in> set (filteredQuestions (opt_difficulty opts) dataset)"
      "x = p \<lparr> qid := qid x \<rparr>" unfolding from_pool_def by blast
    from filteredQuestions_content[OF p(1)] obtain r
      where r: "r \<in> set (filter (keeps (opt_difficulty opts)) dataset)" "same_content p r" by blast
    have "same_content x p" by (subst p(2)) (simp add: same_content_def)
    with r(2) have "same_content x r" by (simp add: same_content_def)
    with r(1) show "\<exists>p \<in> set (filter (keeps (opt_difficulty opts)) dataset). same_content x p"
      by blast
  qed
  show ?thesis unfolding q e using len ids dist content by (intro conjI) simp_all
qed


text \<open>An instance: five questions drawn from the pool of two get the ids 1 to 5.\<close>

theorem loadQuestions_local_repeats_witness:
  "\<not> useAPI (local_options 5)
   \<and> 0 < length (filter (keeps (opt_difficulty (local_options 5))) two_questions)
   \<and> length (filter (keeps (opt_difficulty (local_options 5))) two_questions)
       < amount (local_options 5)
   \<and> length (questions (loadQuestions (\<lambda>k. k) 0 (local_options 5) (Inl []) two_questions
         (initial_state (local_options 5)))) = 5
   \<and> map qid (questions (loadQuestions (\<lambda>k. k) 0 (local_options 5) (Inl []) two_questions
         (initial_state (local_options 5)))) = [1, 2, 3, 4, 5]"
proof -
  have h1: "\<not> useAPI (local_options 5)" by (simp add: local_options_def)
  have h2: "0 < length (filter (keeps (opt_difficulty (local_options 5))) two_questions)"
    by (simp add: local_options_def two_questions_def keeps_def)
  have h3: "length (filter (keeps (opt_difficulty (local_options 5))) two_questions)
       < amount (local_options 5)"
    by (simp add: local_options_def two_questions_def keeps_def)
  note t = loadQuestions_local_repeats[OF h1 h2 h3, of "\<lambda>k. k" 0 "Inl []"
      "initial_state (local_options 5)"]
  have a: "amount (local_options 5) = 5" by (simp add: local_options_def)
  have u: "map int [1..<Suc 5] = [1, 2, 3, 4, 5]" by (simp add: upt_rec)
  from t have c1: "length (questions (loadQuestions (\<lambda>k. k) 0 (local_options 5) (Inl [])
      two_questions (initial_state (local_options 5)))) = 5"
    by (simp only: a)
  from t have c2: "map qid (questions (loadQuestions (\<lambda>k. k) 0 (local_options 5) (Inl [])
      two_questions (initial_state (local_options 5)))) = [1, 2, 3, 4, 5]"
    by (simp only: a u)
  from h1 h2 h3 c1 c2 show ?thesis by (intro conjI)
qed

subsection \<open>The session\<close>

lemma outcome_of_correct_iff:
  "isCorrect (outcome_of answers q) \<longleftrightarrow>
     (case answers (qid q) of None \<Rightarrow> correctAnswer q = JUndefined
      | Some i \<Rightarrow> correctAnswer q = JNum i)"
  by (auto simp: outcome_of_def answer_of_def split: option.splits)

lemma finishQuiz_fst:
  "fst (finishQuiz fp t u st) = st \<lparr> timerActive := False, endTime := Some t,
      st_score := length (filter isCorrect (map (outcome_of (selectedAnswers st)) (questions st))),
      quizCompleted := True \<rparr>"
  by (simp add: finishQuiz_def Let_def)

text \<open>
  C2 (as amended). A second call of finishQuiz returns the same score, total, percentage
  and per-question results as the first; it stores the time of the second call as end
  time, leaving the rest of the state as the first call left it, and the time taken it
  returns is measured to the second call.
\<close>

theorem finishQuiz_again:
  "score (snd (finishQuiz fp t2 u2 (fst (finishQuiz fp t1 u1 st)))) = score (snd (finishQuiz fp t1 u1 st))
   \<and> total (snd (finishQuiz fp t2 u2 (fst (finishQuiz fp t1 u1 st)))) = total (snd (finishQuiz fp t1 u1 st))
   \<and> percentage (snd (finishQuiz fp t2 u2 (fst (finishQuiz fp t1 u1 st))))
       = percentage (snd (finishQuiz fp t1 u1 st))
   \<and> results (snd (finishQuiz fp t2 u2 (fst (finishQuiz fp t1 u1 st))))
       = results (snd (finishQuiz fp t1 u1 st))
   \<and> timeTaken (snd (finishQuiz fp t2 u2 (fst (finishQuiz fp t1 u1 st))))
       = (case startTime st of None \<Rightarrow> 0 | Some t0 \<Rightarrow> u2 - t0)
   \<and> fst (finishQuiz fp t2 u2 (fst (finishQuiz fp t1 u1 st)))
       = (fst (finishQuiz fp t1 u1 st)) \<lparr> endTime := Some t2 \<rparr>"
  by (simp add: finishQuiz_def Let_def)

text \<open>
  C2 (as stated) fails: for a session started at 1000 and finished at 5000, a second call
  at 9000 returns another result (time taken 8000, not 4000) and changes the end time.
\<close>

theorem finishQuiz_again_counterexample:
  "\<not> (snd (finishQuiz exact_pct 9000 9000 (fst (finishQuiz exact_pct 5000 5000 started_session)))
        = snd (finishQuiz exact_pct 5000 5000 started_session)
      \<and> endTime (fst (finishQuiz exact_pct 9000 9000
            (fst (finishQuiz exact_pct 5000 5000 started_session))))
        = endTime (fst (finishQuiz exact_pct 5000 5000 started_session)))"
  by (simp add: finishQuiz_def Let_def started_session_def startQuiz_def)

text \<open>
  C3. The percentage finishQuiz returns is the one calculatePercentage gives for the same
  counts when there are questions, and NaN when there are none, where calculatePercentage
  gives 0: on a session without questions finishQuiz and the derived quizResults give the
  percentage NaN, and nextQuestion reaches that state.
\<close>

theorem finishQuiz_empty_NaN:
  "percentage (snd (finishQuiz fp tEnd tRet st))
     = (if questions st = [] then NaN
        else calculatePercentage fp (score (snd (finishQuiz fp tEnd tRet st)))
               (length (questions st)))
   \<and> percentage (snd (finishQuiz fp tEnd tRet (initial_state opts))) = NaN
   \<and> map_option percentage (quizResults fp (fst (finishQuiz fp tEnd tRet (initial_state opts))))
       = Some NaN
   \<and> map_option percentage (quizResults fp (nextQuestion fp tEnd tRet opts (initial_state opts)))
       = Some NaN
   \<and> calculatePercentage fp 0 0 = Num 0"
  by (simp add: finishQuiz_def Let_def initial_state_def quizResults_def nextQuestion_def
      math_round_pct_def calculatePercentage_def)

text \<open>
  C4. After a failed remote load the session holds the first questions of the shuffled
  local data set and the error "Using offline questions due to connection issues", and
  the quiz page shows the error screen for it, not the start screen; with an empty local
  data set the state differs in the empty question list only.
\<close>

theorem loadQuestions_fallback_error_screen:
  "questions (loadQuestions rnd k (api_options n) (Inl msg) dataset st)
     = take n (fst (shuffleArray rnd k dataset))
   \<and> error (loadQuestions rnd k (api_options n) (Inl msg) dataset st)
       = Some ''Using offline questions due to connection issues''
   \<and> quiz_page fp started (loadQuestions rnd k (api_options n) (Inl msg) dataset st)
       = ErrorScreen ''Using offline questions due to connection issues''
   \<and> length (questions (loadQuestions rnd k (api_options 2) (Inl msg) two_questions st)) = 2
   \<and> quiz_page fp False (loadQuestions rnd k (api_options 2) (Inl msg) two_questions st)
       = ErrorScreen ''Using offline questions due to connection issues''
   \<and> questions (loadQuestions rnd k (api_options n) (Inl msg) [] st) = []
   \<and> error (loadQuestions rnd k (api_options n) (Inl msg) [] st)
       = Some ''Using offline questions due to connection issues''
   \<and> error (loadQuestions rnd k (api_options n) (Inr []) [] st)
       = Some ''Using offline questions due to connection issues''"
proof -
  have l: "length (fst (shuffleArray rnd k two_questions)) = 2"
    by (simp add: shuffleArray_length two_questions_def)
  have e: "fst (shuffleArray rnd k ([] :: question list)) = []"
    by (simp add: shuffleArray_def)
  show ?thesis
    by (simp add: loadQuestions_def load_failed_def Let_def api_options_def quiz_page_def l e)
qed

subsection \<open>The provider\<close>

lemma retry_from_fail_step:
  assumes "attempt \<le> maxRetries"
    and "fetchQuestionsFromAPI decode rnd k (env attempt) = Inl msg"
    and "retryable msg"
  shows "retry_from decode rnd k env maxRetries attempt lastError tr
       = retry_from decode rnd k env maxRetries (Suc attempt) (Some msg)
           (tr @ failed_attempt maxRetries attempt)"
  using assms
  by (simp add: retry_from.simps[of decode rnd k env maxRetries attempt lastError tr] Let_def
      failed_attempt_def final_attempt_def)

lemma retry_from_skip:
  assumes "start \<le> n" "n \<le> maxRetries"
    and "\<forall>a. start \<le> a \<and> a < n \<longrightarrow>
           (\<exists>m. fetchQuestionsFromAPI decode rnd k (env a) = Inl m \<and> retryable m)"
  shows "\<exists>e. retry_from decode rnd k env maxRetries start lastError tr
       = retry_from decode rnd k env maxRetries n e
           (tr @ concat (map (failed_attempt maxRetries) [start..<n]))"
  using assms
proof (induction n)
  case 0
  then show ?case by simp
next
  case (Suc n)
  show ?case
  proof (cases "start = Suc n")
    case True
    then show ?thesis by simp
  next
    case False
    then have le: "start \<le> n" using Suc.prems(1) by simp
    have "\<forall>a. start \<le> a \<and> a < n \<longrightarrow>
           (\<exists>m. fetchQuestionsFromAPI decode rnd k (env a) = Inl m \<and> retryable m)"
      using Suc.prems(3) by auto
    from Suc.IH[OF le _ this] Suc.prems(2) obtain e where
      e: "retry_from decode rnd k env maxRetries start lastError tr
       = retry_from decode rnd k env maxRetries n e
           (tr @ concat (map (failed_attempt maxRetries) [start..<n]))" by auto
    from Suc.prems(3) le obtain m where
      m: "fetchQuestionsFromAPI decode rnd k (env n) = Inl m" "retryable m" by auto
    have "n \<le> maxRetries" using Suc.prems(2) by simp
    from retry_from_fail_step[of n maxRetries decode rnd k env m e
        "tr @ concat (map (failed_attempt maxRetries) [start..<n])", OF this m]
    have "retry_from decode rnd k env maxRetries n e
           (tr @ concat (map (failed_attempt maxRetries) [start..<n]))
        = retry_from decode rnd k env maxRetries (Suc n) (Some m)
           (tr @ concat (map (failed_attempt maxRetries) [start..<Suc n]))"
      using le by simp
    with e show ?thesis by (intro exI[of _ "Some m"]) simp
  qed
qed

lemma retry_from_stop:
  assumes "n \<le> maxRetries"
  shows "(fetchQuestionsFromAPI decode rnd k (env n) = Inr (qs, k') \<longrightarrow>
           retry_from decode rnd k env maxRetries n e tr = (Inr qs, tr @ final_attempt n))
     \<and> (fetchQuestionsFromAPI decode rnd k (env n) = Inl m \<and> \<not> retryable m \<longrightarrow>
           retry_from decode rnd k env maxRetries n e tr = (Inl (Some m), tr @ final_attempt n))
     \<and> (n = maxRetries \<and> fetchQuestionsFromAPI decode rnd k (env n) = Inl m \<and> retryable m \<longrightarrow>
           retry_from decode rnd k env maxRetries n e tr = (Inl (Some m), tr @ final_attempt n))"
proof (intro conjI impI)
  assume "fetchQuestionsFromAPI decode rnd k (env n) = Inr (qs, k')"
  then show "retry_from decode rnd k env maxRetries n e tr = (Inr qs, tr @ final_attempt n)"
    using assms
    by (simp add: retry_from.simps[of decode rnd k env maxRetries n e tr] Let_def
        final_attempt_def)
next
  assume "fetchQuestionsFromAPI decode rnd k (env n) = Inl m \<and> \<not> retryable m"
  then show "retry_from decode rnd k env maxRetries n e tr = (Inl (Some m), tr @ final_attempt n)"
    using assms
    by (simp add: retry_from.simps[of decode rnd k env maxRetries n e tr] Let_def
        final_attempt_def)
next
  assume a: "n = maxRetries \<and> fetchQuestionsFromAPI decode rnd k (env n) = Inl m \<and> retryable m"
  then have n: "n = maxRetries" and f: "fetchQuestionsFromAPI decode rnd k (env n) = Inl m"
    and r: "retryable m" by blast+
  have "retry_from decode rnd k env maxRetries n e tr
      = retry_from decode rnd k env maxRetries (Suc n) (Some m) (tr @ failed_attempt maxRetries n)"
    by (rule retry_from_fail_step[of n maxRetries decode rnd k env m e tr, OF assms f r])
  also have "\<dots> = (Inl (Some m), tr @ failed_attempt maxRetries n)"
    by (simp only: retry_from.simps[of decode rnd k env maxRetries "Suc n" "Some m"
          "tr @ failed_attempt maxRetries n"] n) simp
  finally show "retry_from decode rnd k env maxRetries n e tr = (Inl (Some m), tr @ final_attempt n)"
    using n by (simp only: failed_attempt_def) simp
qed

lemma rethrown_rate_limit:
  "rethrown ''RATE_LIMIT_EXCEEDED'' = rate_limit_message" "rethrown ''RATE_LIMIT'' = rate_limit_message"
  by (simp_all add: rethrown_def)

lemma rate_limited_message:
  assumes "rate_limited r"
  shows "fetchQuestionsFromAPI decode rnd k r = Inl rate_limit_message"
proof (cases r)
  case (Rejected msg)
  with assms show ?thesis by (simp add: rate_limited_def)
next
  case (Response status b)
  show ?thesis
  proof (cases "ok status")
    case False
    with assms Response show ?thesis
      by (simp add: rate_limited_def fetchQuestionsFromAPI_def rethrown_rate_limit)
  next
    case True
    with assms Response obtain rs where "b = Json 5 rs"
      by (cases b) (auto simp: rate_limited_def)
    with True Response show ?thesis
      by (simp add: fetchQuestionsFromAPI_def response_error_def rethrown_rate_limit)
  qed
qed

lemma retryable_rate_limit: "retryable rate_limit_message"
  by (simp add: retryable_def rate_limit_message_def js_includes_def)

lemma not_retryable_others:
  "\<not> retryable (rethrown ''NO_RESULTS'')"
  "\<not> retryable (rethrown ''INVALID_PARAMETER'')"
  "\<not> retryable (rethrown ''Failed to fetch'')"
  by (simp_all add: retryable_def rethrown_def js_includes_def sublist_Cons_right)

lemma final_attempt_requests: "filter is_request (final_attempt a) = [Request a]"
  by (simp add: final_attempt_def)

lemma failed_attempt_requests: "filter is_request (failed_attempt m a) = [Request a]"
  by (simp add: failed_attempt_def final_attempt_requests)

lemma failed_attempts_requests:
  "filter is_request (concat (map (failed_attempt m) [i..<n])) = map Request [i..<n]"
  by (induction n) (simp_all add: failed_attempt_requests)

lemma stop_trace_requests:
  "1 \<le> n \<Longrightarrow> filter is_request (stop_trace m n) = map Request [1..<Suc n]"
  by (simp add: stop_trace_def failed_attempts_requests final_attempt_requests)

text \<open>
  C5 (as amended). If the attempts before attempt n (at most maxRetries) fail with a
  message that contains "Rate limit" or "429", then a success of attempt n is returned,
  an error of attempt n without such a message is thrown at once, and such an error of
  the last attempt is thrown; the trace shows the requests 1 to n and no other, 10 s
  awaited after each failed attempt and attempt times 3 s before each later one.  Every rate-limited
  response fails with such a message; the messages for no results, invalid parameters and
  network failures are not of that kind.
\<close>

theorem fetchQuestionsWithRetry_retries:
  assumes "1 \<le> n" and "n \<le> maxRetries"
    and "\<forall>a. 1 \<le> a \<and> a < n \<longrightarrow>
           (\<exists>m. fetchQuestionsFromAPI decode rnd k (env a) = Inl m \<and> retryable m)"
  shows "(fetchQuestionsFromAPI decode rnd k (env n) = Inr (qs, k') \<longrightarrow>
            fetchQuestionsWithRetry decode rnd k env maxRetries
              = (Inr qs, stop_trace maxRetries n))
     \<and> (fetchQuestionsFromAPI decode rnd k (env n) = Inl m \<and> \<not> retryable m \<longrightarrow>
            fetchQuestionsWithRetry decode rnd k env maxRetries
              = (Inl (Some m), stop_trace maxRetries n))
     \<and> (n = maxRetries \<and> fetchQuestionsFromAPI decode rnd k (env n) = Inl m \<and> retryable m \<longrightarrow>
            fetchQuestionsWithRetry decode rnd k env maxRetries
              = (Inl (Some m), stop_trace maxRetries n))
     \<and> (rate_limited r \<longrightarrow>
            (\<exists>m'. fetchQuestionsFromAPI decode rnd k r = Inl m' \<and> retryable m'))
     \<and> \<not> retryable (rethrown ''NO_RESULTS'')
     \<and> \<not> retryable (rethrown ''INVALID_PARAMETER'')
     \<and> \<not> retryable (rethrown ''Failed to fetch'')
     \<and> filter is_request (stop_trace maxRetries n) = map Request [1..<Suc n]"
proof -
  from retry_from_skip[OF assms, of None "[]"] obtain e where
    e: "fetchQuestionsWithRetry decode rnd k env maxRetries
       = retry_from decode rnd k env maxRetries n e
           (concat (map (failed_attempt maxRetries) [1..<n]))"
    by (auto simp: fetchQuestionsWithRetry_def)
  note stop = retry_from_stop[OF assms(2), of decode rnd k env qs k' e
      "concat (map (failed_attempt maxRetries) [1..<n])" m]
  have rl: "rate_limited r \<longrightarrow>
            (\<exists>m'. fetchQuestionsFromAPI decode rnd k r = Inl m' \<and> retryable m')"
    using rate_limited_message retryable_rate_limit by blast
  show ?thesis
    unfolding e stop_trace_def
    apply (intro conjI)
    apply (rule stop[THEN conjunct1])
    apply (rule stop[THEN conjunct2, THEN conjunct1])
    apply (rule stop[THEN conjunct2, THEN conjunct2])
    apply (rule rl)
    apply (rule not_retryable_others)
    apply (rule not_retryable_others)
    apply (rule not_retryable_others)
    apply (rule stop_trace_requests[OF assms(1), unfolded stop_trace_def])
    done
qed

text \<open>
  C5 (as stated) fails: the response code 429 is not rate limiting and fails with the
  provider error API_ERROR_429, yet the request is made three times.
\<close>

theorem fetchQuestionsWithRetry_retries_counterexample:
  "fetchQuestionsFromAPI id (\<lambda>k. 0) 0 (Response 200 (Json 429 [])) = Inl ''API_ERROR_429''
   \<and> \<not> rate_limited (Response 200 (Json 429 []))
   \<and> ''API_ERROR_429'' \<noteq> rate_limit_message
   \<and> fetchQuestionsWithRetry id (\<lambda>k. 0) 0 (\<lambda>a. Response 200 (Json 429 [])) 3
       = (Inl (Some ''API_ERROR_429''),
          [Request 1, Delay 10000, Delay 6000, Request 2, Delay 10000, Delay 9000, Request 3])"
proof -
  have f: "fetchQuestionsFromAPI id (\<lambda>k. 0) 0 (Response 200 (Json 429 [])) = Inl ''API_ERROR_429''"
    by (simp add: fetchQuestionsFromAPI_def ok_def response_error_def show_int_def rethrown_def
        js_includes_def sublist_Cons_right)
  have r: "retryable ''API_ERROR_429''"
    by (simp add: retryable_def js_includes_def sublist_Cons_right)
  have n: "\<not> rate_limited (Response 200 (Json 429 []))"
    by (simp add: rate_limited_def ok_def)
  have d: "''API_ERROR_429'' \<noteq> rate_limit_message"
    by (simp add: rate_limit_message_def)
  have "fetchQuestionsWithRetry id (\<lambda>k. 0) 0 (\<lambda>a. Response 200 (Json 429 [])) 3
       = (Inl (Some ''API_ERROR_429''),
          [Request 1, Delay 10000, Delay 6000, Request 2, Delay 10000, Delay 9000, Request 3])"
    by (simp add: fetchQuestionsWithRetry_def f r)
  with f n d show ?thesis by (intro conjI)
qed

lemma fetch_capital:
  "fetchQuestionsFromAPI id (\<lambda>k. 0) 0 (Response 200 (Json 0 [capital_question]))
     = Inr ([capital_formatted], 3)"
  by (simp add: fetchQuestionsFromAPI_def ok_def format_question_def Let_def shuffleArray_def
      capital_question_def capital_formatted_def eval_nat_numeral)

lemma fetch_429: "fetchQuestionsFromAPI decode rnd k (Response 429 b) = Inl rate_limit_message"
  by (simp add: fetchQuestionsFromAPI_def ok_def rethrown_rate_limit)

lemma stop_trace_3:
  "stop_trace 3 3 = [Request 1, Delay 10000, Delay 6000, Request 2, Delay 10000, Delay 9000, Request 3]"
  "stop_trace 3 1 = [Request 1]"
  by (simp_all add: stop_trace_def failed_attempt_def final_attempt_def upt_rec)

text \<open>
  Instances with three attempts allowed: two rate-limited attempts and a success return
  the questions; three rate-limited attempts throw the rate-limit error; a response
  without results is thrown after the first request.
\<close>

theorem fetchQuestionsWithRetry_retries_witness:
  "(1::nat) \<le> 3 \<and> (3::nat) \<le> 3
   \<and> fetchQuestionsFromAPI id (\<lambda>k. 0) 0 (rate_limited_twice 1) = Inl rate_limit_message
   \<and> fetchQuestionsFromAPI id (\<lambda>k. 0) 0 (rate_limited_twice 2) = Inl rate_limit_message
   \<and> retryable rate_limit_message
   \<and> fetchQuestionsFromAPI id (\<lambda>k. 0) 0 (rate_limited_twice 3) = Inr ([capital_formatted], 3)
   \<and> fetchQuestionsWithRetry id (\<lambda>k. 0) 0 rate_limited_twice 3
       = (Inr [capital_formatted],
          [Request 1, Delay 10000, Delay 6000, Request 2, Delay 10000, Delay 9000, Request 3])
   \<and> fetchQuestionsWithRetry id (\<lambda>k. 0) 0 (\<lambda>a. Response 429 (BadJson [])) 3
       = (Inl (Some rate_limit_message),
          [Request 1, Delay 10000, Delay 6000, Request 2, Delay 10000, Delay 9000, Request 3])
   \<and> \<not> retryable (rethrown ''NO_RESULTS'')
   \<and> fetchQuestionsWithRetry id (\<lambda>k. 0) 0 (\<lambda>a. Response 200 (Json 1 [])) 3
       = (Inl (Some (rethrown ''NO_RESULTS'')), [Request 1])
   \<and> rate_limited (Response 200 (Json 5 []))
   \<and> (\<exists>m'. fetchQuestionsFromAPI id (\<lambda>k. 0) 0 (Response 200 (Json 5 [])) = Inl m'
          \<and> retryable m')"
proof -
  have f1: "fetchQuestionsFromAPI id (\<lambda>k. 0) 0 (rate_limited_twice 1) = Inl rate_limit_message"
    and f2: "fetchQuestionsFromAPI id (\<lambda>k. 0) 0 (rate_limited_twice 2) = Inl rate_limit_message"
    by (simp_all add: rate_limited_twice_def fetch_429)
  have f3: "fetchQuestionsFromAPI id (\<lambda>k. 0) 0 (rate_limited_twice 3) = Inr ([capital_formatted], 3)"
    by (simp add: rate_limited_twice_def fetch_capital)
  have h: "\<forall>a. 1 \<le> a \<and> a < 3 \<longrightarrow>
      (\<exists>m. fetchQuestionsFromAPI id (\<lambda>k. 0) 0 (rate_limited_twice a) = Inl m \<and> retryable m)"
    by (simp add: rate_limited_twice_def fetch_429 retryable_rate_limit)
  have h': "\<forall>a::nat. 1 \<le> a \<and> a < 3 \<longrightarrow>
      (\<exists>m. fetchQuestionsFromAPI id (\<lambda>k. 0) 0 (Response 429 (BadJson [])) = Inl m \<and> retryable m)"
    by (simp add: fetch_429 retryable_rate_limit)
  have h1: "\<forall>a::nat. 1 \<le> a \<and> a < 1 \<longrightarrow>
      (\<exists>m. fetchQuestionsFromAPI id (\<lambda>k. 0) 0 (Response 200 (Json 1 [])) = Inl m \<and> retryable m)"
    by auto
  have l13: "(1::nat) \<le> 3" and l33: "(3::nat) \<le> 3" and l11: "(1::nat) \<le> 1" by simp_all
  note t1 = fetchQuestionsWithRetry_retries[of 3 3 id "\<lambda>k. 0" 0 rate_limited_twice "[capital_formatted]" 3,
      OF l13 l33 h]
  have c1: "fetchQuestionsWithRetry id (\<lambda>k. 0) 0 rate_limited_twice 3
       = (Inr [capital_formatted],
          [Request 1, Delay 10000, Delay 6000, Request 2, Delay 10000, Delay 9000, Request 3])"
    by (rule t1[THEN conjunct1, THEN mp, OF f3, unfolded stop_trace_3])
  note t2 = fetchQuestionsWithRetry_retries[of 3 3 id "\<lambda>k. 0" 0 "\<lambda>a. Response 429 (BadJson [])"
      _ _ rate_limit_message, OF l13 l33 h']
  have c2: "fetchQuestionsWithRetry id (\<lambda>k. 0) 0 (\<lambda>a. Response 429 (BadJson [])) 3
       = (Inl (Some rate_limit_message),
          [Request 1, Delay 10000, Delay 6000, Request 2, Delay 10000, Delay 9000, Request 3])"
    by (rule t2[THEN conjunct2, THEN conjunct2, THEN conjunct1, THEN mp, unfolded stop_trace_3])
       (intro conjI refl fetch_429 retryable_rate_limit)
  note t3 = fetchQuestionsWithRetry_retries[of 1 3 id "\<lambda>k. 0" 0 "\<lambda>a. Response 200 (Json 1 [])"
      _ _ "rethrown ''NO_RESULTS''", OF l11 l13 h1]
  have f4: "fetchQuestionsFromAPI id (\<lambda>k. 0) 0 (Response 200 (Json 1 [])) = Inl (rethrown ''NO_RESULTS'')"
    by (simp add: fetchQuestionsFromAPI_def ok_def response_error_def)
  have nr: "\<not> retryable (rethrown ''NO_RESULTS'')"
    by (rule t3[THEN conjunct2, THEN conjunct2, THEN conjunct2, THEN conjunct2, THEN conjunct1])
  have c3: "fetchQuestionsWithRetry id (\<lambda>k. 0) 0 (\<lambda>a. Response 200 (Json 1 [])) 3
       = (Inl (Some (rethrown ''NO_RESULTS'')), [Request 1])"
    by (rule t3[THEN conjunct2, THEN conjunct1, THEN mp, unfolded stop_trace_3])
       (intro conjI f4 nr)
  have rl: "rate_limited (Response 200 (Json 5 []))"
    by (simp add: rate_limited_def ok_def)
  note t4 = fetchQuestionsWithRetry_retries[of 1 3 id "\<lambda>k. 0" 0 "\<lambda>a. Response 200 (Json 1 [])"
      _ _ _ "Response 200 (Json 5 [])", OF l11 l13 h1]
  have c4: "\<exists>m'. fetchQuestionsFromAPI id (\<lambda>k. 0) 0 (Response 200 (Json 5 [])) = Inl m'
          \<and> retryable m'"
    by (rule t4[THEN conjunct2, THEN conjunct2, THEN conjunct2, THEN conjunct1, THEN mp, OF rl])
  from l13 l33 f1 f2 retryable_rate_limit f3 c1 c2 nr c3 rl c4 show ?thesis by (intro conjI)
qed

lemma format_all_strings:
  "q \<in> set (fst (format_all decode rnd k i rs)) \<Longrightarrow> \<exists>s. correctAnswer q = JStr s"
  by (induction rs arbitrary: k i) (auto simp: Let_def format_question_def)

lemma fetched_strings:
  assumes "fetchQuestionsFromAPI decode rnd k r = Inr (qs, k')" "q \<in> set qs"
  shows "\<exists>s. correctAnswer q = JStr s"
proof -
  from assms(1) obtain rs where
    "qs = fst (shuffleArray rnd (snd (format_all decode rnd k 0 rs)) (fst (format_all decode rnd k 0 rs)))"
    by (auto simp: fetchQuestionsFromAPI_def Let_def split: fetched.splits body.splits if_splits)
       (metis fst_conv)
  with assms(2) have "q \<in> set (fst (format_all decode rnd k 0 rs))"
    by (simp add: shuffleArray_set)
  then show ?thesis by (rule format_all_strings)
qed

lemma remote_questions_never_correct:
  assumes "fetchQuestionsFromAPI decode rnd k r = Inr (qs, k')" "questions st = qs"
  shows "score (snd (finishQuiz fp t u st)) = 0"
proof -
  have "\<not> isCorrect (outcome_of (selectedAnswers st) q)" if "q \<in> set qs" for q
  proof -
    from fetched_strings[OF assms(1) that] obtain s where "correctAnswer q = JStr s" by blast
    then show ?thesis
      by (simp add: outcome_of_def answer_of_def split: option.splits)
  qed
  then have "filter isCorrect (map (outcome_of (selectedAnswers st)) qs) = []"
    by (simp add: filter_empty_conv)
  then show ?thesis by (simp add: finishQuiz_def Let_def assms(2))
qed

text \<open>
  C1. A question is counted correct when the index recorded for its id is its
  correctAnswer, and a question without a recorded index when its correctAnswer is
  undefined.  A question formatted from the provider holds the text of the correct answer
  there, so it is counted correct for no answers at all: choosing the option that is the
  correct answer (index 2, Paris) is recorded and finishQuiz counts it as not correct,
  with score 0.
\<close>

theorem finishQuiz_remote_correct_choice_not_counted:
  "isCorrect (outcome_of answers q)
     = (case answers (qid q) of None \<Rightarrow> correctAnswer q = JUndefined
        | Some i \<Rightarrow> correctAnswer q = JNum i)
   \<and> isCorrect (outcome_of answers (fst (format_question decode rnd k index aq))) = False
   \<and> fetchQuestionsFromAPI id (\<lambda>k. 0) 0 (Response 200 (Json 0 [capital_question]))
     = Inr ([capital_formatted], 3)
   \<and> questions remote_session = [capital_formatted]
   \<and> options capital_formatted = JArr [''Rome'', ''Berlin'', ''Paris'', ''London'']
   \<and> [''Rome'', ''Berlin'', ''Paris'', ''London''] ! 2 = correct_answer capital_question
   \<and> map_option (\<lambda>st. selectedAnswers st 1) (selectAnswer 2 remote_session) = Some (Some 2)
   \<and> map_option (\<lambda>st. score (snd (finishQuiz fp t u st))) (selectAnswer 2 remote_session) = Some 0
   \<and> map_option (\<lambda>st. map isCorrect (results (snd (finishQuiz fp t u st))))
        (selectAnswer 2 remote_session) = Some [False]"
proof -
  have q: "questions remote_session = [capital_formatted]"
    by (simp add: remote_session_def startQuiz_def loadQuestions_def Let_def api_options_def
        loaded_def)
  have st: "selectAnswer 2 remote_session
      = Some (remote_session \<lparr> selectedAnswers := (selectedAnswers remote_session)(1 \<mapsto> 2) \<rparr>)"
    by (simp add: selectAnswer_def q)
       (simp add: remote_session_def startQuiz_def loadQuestions_def Let_def api_options_def
        loaded_def initial_state_def capital_formatted_def)
  show ?thesis
    apply (intro conjI)
    apply (rule outcome_of_correct_iff)
    apply (simp add: outcome_of_def answer_of_def format_question_def Let_def split: option.splits)
    apply (rule fetch_capital)
    apply (rule q)
    apply (simp add: capital_formatted_def)
    apply (simp add: capital_question_def)
    apply (simp add: st)
    apply (simp add: st finishQuiz_def Let_def q outcome_of_def answer_of_def capital_formatted_def)
    apply (simp add: st finishQuiz_def Let_def q outcome_of_def answer_of_def capital_formatted_def)
    done
qed

subsection \<open>The rate limiter\<close>










end
